theory Spec2Isabelle
  imports Complex_Main "HOL-Library.AList" "HOL-Library.Char_ord" "HOL-Library.List_Lexorder"
begin

section \<open>Tables\<close>

text \<open>
  A pandas DataFrame is an ordered list of named columns; a column is a list of cells.
  A cell is missing (\<open>NaN\<close>), a number, or a string (the cells of an \<open>object\<close> column
  read from a CSV file). Numbers are real numbers: rounding of 64-bit floats and the
  infinities are not modelled. All columns of one table have the same length in pandas;
  the operations below work column by column and keep the length.
\<close>

datatype cell = NaN | Num real | Str string

type_synonym column = "cell list"
type_synonym table = "(string \<times> column) list"

datatype error =
    KeyError string
  | ValueError
  | IndexError

text \<open>\<^verbatim>\<open>df[name]\<close>: the column, or \<^verbatim>\<open>KeyError\<close> when no column has that name.\<close>

definition get_col :: "table \<Rightarrow> string \<Rightarrow> error + column" where
  "get_col t name = (case map_of t name of None \<Rightarrow> Inl (KeyError name) | Some c \<Rightarrow> Inr c)"

text \<open>\<^verbatim>\<open>df[name] = col\<close>: replaces the column in place, or appends a new last column.\<close>

definition set_col :: "table \<Rightarrow> string \<Rightarrow> column \<Rightarrow> table" where
  "set_col t name c = AList.update name c t"

definition columns :: "table \<Rightarrow> string list" where
  "columns t = map fst t"

definition isnull_sum :: "column \<Rightarrow> nat" where
  "isnull_sum col = length (filter (\<lambda>c. c = NaN) col)"

section \<open>Library conversions\<close>

text \<open>
  The scalar parsers behind \<^verbatim>\<open>pd.to_numeric\<close> (the text of a cell to a number) and
  behind \<^verbatim>\<open>astype(int)\<close> on strings (Python's \<^verbatim>\<open>int(s)\<close>) belong to pandas and Python,
  not to this repository. The cleaner is parametric in them; \<open>None\<close> means that the text
  does not parse.
\<close>

record parsers =
  numeric_of :: "string \<Rightarrow> real option"
  int_of :: "string \<Rightarrow> int option"

text \<open>
  A concrete pair of parsers for closed examples: an optional sign followed by one or more
  decimal digits. Both pandas and Python read such a literal as that integer.
\<close>

definition digit_of :: "char \<Rightarrow> nat option" where
  "digit_of c =
     (if CHR ''0'' \<le> c \<and> c \<le> CHR ''9'' then Some (of_char c - of_char CHR ''0'') else None)"

fun digits_acc :: "nat \<Rightarrow> string \<Rightarrow> nat option" where
  "digits_acc acc [] = Some acc"
| "digits_acc acc (c # cs) =
     (case digit_of c of None \<Rightarrow> None | Some d \<Rightarrow> digits_acc (10 * acc + d) cs)"

definition int_literal :: "string \<Rightarrow> int option" where
  "int_literal s =
     (case s of
        [] \<Rightarrow> None
      | c # cs \<Rightarrow>
          if c = CHR ''-'' then
            (if cs = [] then None else map_option (\<lambda>n. - int n) (digits_acc 0 cs))
          else if c = CHR ''+'' then
            (if cs = [] then None else map_option int (digits_acc 0 cs))
          else map_option int (digits_acc 0 (c # cs)))"

definition literal_parsers :: parsers where
  "literal_parsers =
     \<lparr> numeric_of = (\<lambda>s. map_option real_of_int (int_literal s)), int_of = int_literal \<rparr>"

text \<open>\<^verbatim>\<open>pd.to_numeric(col, errors='coerce')\<close>: text that does not parse becomes missing.\<close>

definition to_numeric_coerce :: "parsers \<Rightarrow> column \<Rightarrow> column" where
  "to_numeric_coerce P col =
     map (\<lambda>c. case c of
                 Str s \<Rightarrow> (case numeric_of P s of Some r \<Rightarrow> Num r | None \<Rightarrow> NaN)
               | _ \<Rightarrow> c) col"

text \<open>\<^verbatim>\<open>pd.to_numeric(col)\<close>: text that does not parse raises \<^verbatim>\<open>ValueError\<close>.\<close>

definition to_numeric :: "parsers \<Rightarrow> column \<Rightarrow> error + column" where
  "to_numeric P col =
     (if \<exists>c \<in> set col. case c of Str s \<Rightarrow> numeric_of P s = None | _ \<Rightarrow> False
      then Inl ValueError
      else Inr (to_numeric_coerce P col))"

text \<open>
  \<^verbatim>\<open>col.astype(int)\<close>: a number is truncated towards zero, a missing value raises
  (pandas cannot cast NaN to an integer), a string goes through Python's \<^verbatim>\<open>int\<close>.
\<close>

definition trunc :: "real \<Rightarrow> int" where
  "trunc r = (if 0 \<le> r then \<lfloor>r\<rfloor> else \<lceil>r\<rceil>)"

definition astype_int_cell :: "parsers \<Rightarrow> cell \<Rightarrow> error + cell" where
  "astype_int_cell P c =
     (case c of
        NaN \<Rightarrow> Inl ValueError
      | Num r \<Rightarrow> Inr (Num (of_int (trunc r)))
      | Str s \<Rightarrow> (case int_of P s of None \<Rightarrow> Inl ValueError | Some i \<Rightarrow> Inr (Num (of_int i))))"

fun astype_int :: "parsers \<Rightarrow> column \<Rightarrow> error + column" where
  "astype_int P [] = Inr []"
| "astype_int P (c # cs) =
     (case astype_int_cell P c of
        Inl e \<Rightarrow> Inl e
      | Inr c' \<Rightarrow> (case astype_int P cs of Inl e \<Rightarrow> Inl e | Inr cs' \<Rightarrow> Inr (c' # cs')))"

section \<open>Median and mode\<close>

text \<open>\<^verbatim>\<open>Series.median()\<close> skips missing values; it is NaN when nothing is left.\<close>

definition nums :: "column \<Rightarrow> real list" where
  "nums col = concat (map (\<lambda>c. case c of Num r \<Rightarrow> [r] | _ \<Rightarrow> []) col)"

definition median_of :: "real list \<Rightarrow> cell" where
  "median_of xs =
     (let ys = sort xs; n = length ys
      in if n = 0 then NaN
         else if odd n then Num (ys ! (n div 2))
         else Num ((ys ! (n div 2 - 1) + ys ! (n div 2)) / 2))"

definition median :: "column \<Rightarrow> cell" where
  "median col = median_of (nums col)"

definition fillna :: "cell \<Rightarrow> column \<Rightarrow> column" where
  "fillna v col = map (\<lambda>c. if c = NaN then v else c) col"

text \<open>
  \<^verbatim>\<open>Series.mode()\<close>: the missing values are dropped, the values that occur most often are
  collected in order of first appearance and then sorted; an \<open>object\<close> column that mixes
  numbers and strings cannot be sorted and keeps the order of first appearance.
\<close>

definition dropna :: "column \<Rightarrow> column" where
  "dropna col = filter (\<lambda>c. c \<noteq> NaN) col"

definition unique :: "'a list \<Rightarrow> 'a list" where
  "unique xs = rev (remdups (rev xs))"

definition max_count :: "column \<Rightarrow> nat" where
  "max_count vs = fold max (map (count_list vs) vs) 0"

definition is_num :: "cell \<Rightarrow> bool" where
  "is_num c = (case c of Num _ \<Rightarrow> True | _ \<Rightarrow> False)"

definition is_str :: "cell \<Rightarrow> bool" where
  "is_str c = (case c of Str _ \<Rightarrow> True | _ \<Rightarrow> False)"

definition num_val :: "cell \<Rightarrow> real" where
  "num_val c = (case c of Num r \<Rightarrow> r | _ \<Rightarrow> 0)"

definition str_val :: "cell \<Rightarrow> string" where
  "str_val c = (case c of Str s \<Rightarrow> s | _ \<Rightarrow> [])"

definition np_sort :: "column \<Rightarrow> column" where
  "np_sort vs =
     (if list_all is_num vs then sort_key num_val vs
      else if list_all is_str vs then sort_key str_val vs
      else vs)"

definition mode :: "column \<Rightarrow> column" where
  "mode col =
     (let vs = dropna col
      in np_sort (filter (\<lambda>k. count_list vs k = max_count vs) (unique vs)))"

section \<open>The loader\<close>

text \<open>
  \<^verbatim>\<open>MedicalInsuranceDataLoader\<close> holds the raw and the clean table, \<open>None\<close> until the
  stage that produces them has run. Downloading and reading the file are outside this
  development; \<^verbatim>\<open>label_mappings\<close> is a constant of the class.
\<close>

record loader =
  df_raw :: "table option"
  df_clean :: "table option"

definition init_loader :: loader where
  "init_loader = \<lparr> df_raw = None, df_clean = None \<rparr>"

text \<open>
  What the methods print, as far as it carries data or reports a refusal; the fixed
  progress lines are left out.
\<close>

datatype message =
    NoRawData
  | NoCleanData
  | FilledAge nat cell
  | CleaningComplete nat

subsection \<open>Age\<close>

text \<open>
  \<^verbatim>\<open>
  self.df_clean['age'] = pd.to_numeric(self.df_clean['age'], errors='coerce')
  age_missing = self.df_clean['age'].isnull().sum()
  if age_missing > 0:
      age_median = self.df_clean['age'].median()
      self.df_clean['age'] = self.df_clean['age'].fillna(age_median)
      print(f"    Filled {age_missing} missing values with median: {age_median}")
  \<close>
\<close>

definition clean_age :: "parsers \<Rightarrow> column \<Rightarrow> column \<times> message list" where
  "clean_age P age =
     (let coerced = to_numeric_coerce P age;
          age_missing = isnull_sum coerced
      in if age_missing > 0 then
           (let age_median = median coerced
            in (fillna age_median coerced, [FilledAge age_missing age_median]))
         else (coerced, []))"

subsection \<open>Smoker\<close>

text \<open>
  \<^verbatim>\<open>
  smoker_mode = self.df_clean['smoker'].mode()[0] \
      if '?' not in str(self.df_clean['smoker'].mode().values) else '0'
  self.df_clean['smoker'] = self.df_clean['smoker'].replace('?', smoker_mode)
  self.df_clean['smoker'] = pd.to_numeric(self.df_clean['smoker'])
  \<close>
  The test looks for the character \<^verbatim>\<open>?\<close> in the printed array of modes. numpy prints the
  elements one after the other (strings quoted), and abbreviates an array of more than
  1000 elements to its first three and last three.
\<close>

definition printed :: "column \<Rightarrow> column" where
  "printed vs = (if length vs > 1000 then take 3 vs @ drop (length vs - 3) vs else vs)"

definition shows_qmark :: "column \<Rightarrow> bool" where
  "shows_qmark vs =
     (\<exists>c \<in> set (printed vs). case c of Str s \<Rightarrow> CHR ''?'' \<in> set s | _ \<Rightarrow> False)"

definition smoker_mode :: "column \<Rightarrow> error + cell" where
  "smoker_mode smoker =
     (if \<not> shows_qmark (mode smoker) then
        (case mode smoker of [] \<Rightarrow> Inl (KeyError ''0'') | m # _ \<Rightarrow> Inr m)
      else Inr (Str ''0''))"

definition replace_cell :: "cell \<Rightarrow> cell \<Rightarrow> column \<Rightarrow> column" where
  "replace_cell old new col = map (\<lambda>c. if c = old then new else c) col"

definition clean_smoker :: "parsers \<Rightarrow> column \<Rightarrow> error + column" where
  "clean_smoker P smoker =
     (case smoker_mode smoker of
        Inl e \<Rightarrow> Inl e
      | Inr m \<Rightarrow> to_numeric P (replace_cell (Str ''?'') m smoker))"

subsection \<open>Type conversion\<close>

text \<open>
  \<^verbatim>\<open>
  self.df_clean['age'] = self.df_clean['age'].astype(int)
  \<close>
  and the same for \<^verbatim>\<open>sex\<close>, \<^verbatim>\<open>children\<close>, \<^verbatim>\<open>smoker\<close>, \<^verbatim>\<open>region\<close>, in this order.
\<close>

definition astype_int_col :: "parsers \<Rightarrow> string \<Rightarrow> table \<Rightarrow> error + table" where
  "astype_int_col P name t =
     (case get_col t name of
        Inl e \<Rightarrow> Inl e
      | Inr col \<Rightarrow> (case astype_int P col of Inl e \<Rightarrow> Inl e | Inr col' \<Rightarrow> Inr (set_col t name col')))"

fun convert_types :: "parsers \<Rightarrow> string list \<Rightarrow> table \<Rightarrow> error + table" where
  "convert_types P [] t = Inr t"
| "convert_types P (name # names) t =
     (case astype_int_col P name t of Inl e \<Rightarrow> Inl e | Inr t' \<Rightarrow> convert_types P names t')"

definition int_columns :: "string list" where
  "int_columns = [''age'', ''sex'', ''children'', ''smoker'', ''region'']"

definition total_missing :: "table \<Rightarrow> nat" where
  "total_missing t = sum_list (map (\<lambda>(name, col). isnull_sum col) t)"

subsection \<open>\<^verbatim>\<open>clean_data\<close>\<close>

text \<open>
  The result is an exception, or the returned value (\<open>None\<close> or the clean table) with the
  loader after the call and the messages printed. The state left behind by an exception
  is not modelled.
\<close>

definition clean_data :: "parsers \<Rightarrow> loader \<Rightarrow> error + (table option \<times> loader \<times> message list)" where
  "clean_data P lo =
     (case df_raw lo of
        None \<Rightarrow> Inr (None, lo, [NoRawData])
      | Some raw \<Rightarrow>
          (case get_col raw ''age'' of
             Inl e \<Rightarrow> Inl e
           | Inr age \<Rightarrow>
               (let (age', msgs) = clean_age P age;
                    t1 = set_col raw ''age'' age'
                in case get_col t1 ''smoker'' of
                     Inl e \<Rightarrow> Inl e
                   | Inr smoker \<Rightarrow>
                       (case clean_smoker P smoker of
                          Inl e \<Rightarrow> Inl e
                        | Inr smoker' \<Rightarrow>
                            (case convert_types P int_columns (set_col t1 ''smoker'' smoker') of
                               Inl e \<Rightarrow> Inl e
                             | Inr t3 \<Rightarrow>
                                 Inr (Some t3, lo\<lparr>df_clean := Some t3\<rparr>,
                                      msgs @ [CleaningComplete (total_missing t3)]))))))"

subsection \<open>\<^verbatim>\<open>create_labeled_data\<close>\<close>

definition sex_labels :: "(real \<times> string) list" where
  "sex_labels = [(1, ''male''), (2, ''female'')]"

definition smoker_labels :: "(real \<times> string) list" where
  "smoker_labels = [(0, ''no''), (1, ''yes'')]"

definition region_labels :: "(real \<times> string) list" where
  "region_labels = [(1, ''northeast''), (2, ''northwest''), (3, ''southeast''), (4, ''southwest'')]"

text \<open>
  \<^verbatim>\<open>Series.map(dict)\<close>: a value that is not a key of the dictionary maps to NaN. The keys
  are integers; a number cell equal to a key matches it, a string or missing cell does not.
\<close>

definition map_labels :: "(real \<times> string) list \<Rightarrow> column \<Rightarrow> column" where
  "map_labels d col =
     map (\<lambda>c. case c of
                 Num r \<Rightarrow> (case map_of d r of Some l \<Rightarrow> Str l | None \<Rightarrow> NaN)
               | _ \<Rightarrow> NaN) col"

definition create_labeled_data :: "loader \<Rightarrow> error + (table option \<times> message list)" where
  "create_labeled_data lo =
     (case df_clean lo of
        None \<Rightarrow> Inr (None, [NoCleanData])
      | Some t \<Rightarrow>
          (case get_col t ''sex'' of
             Inl e \<Rightarrow> Inl e
           | Inr sex \<Rightarrow>
               (let t1 = set_col t ''sex_label'' (map_labels sex_labels sex)
                in case get_col t1 ''smoker'' of
                     Inl e \<Rightarrow> Inl e
                   | Inr smoker \<Rightarrow>
                       (let t2 = set_col t1 ''smoker_label'' (map_labels smoker_labels smoker)
                        in case get_col t2 ''region'' of
                             Inl e \<Rightarrow> Inl e
                           | Inr region \<Rightarrow>
                               Inr (Some (set_col t2 ''region_label''
                                            (map_labels region_labels region)), [])))))"

section \<open>The analyzer\<close>

text \<open>
  A value computed by the analysis is a real number or NaN (\<open>None\<close>). A pandas Series is a
  list of labelled values; the correlation matrix is a list of named columns, each a
  Series over the row labels.
\<close>

type_synonym 'l series = "('l \<times> real option) list"
type_synonym 'l frame = "(string \<times> 'l series) list"

subsection \<open>\<^verbatim>\<open>DataFrame.corr()\<close>\<close>

text \<open>
  Pearson correlation as pandas computes it: over the rows where both columns are present,
  NaN when there is no such row (\<^verbatim>\<open>min_periods=1\<close>) or when the divisor is zero, and clipped
  to the interval from -1 to 1. pandas accumulates the sums in one pass over the rows; over
  the real numbers that gives the sums below. A table with a string cell makes
  \<^verbatim>\<open>corr()\<close> raise (pandas 2, \<^verbatim>\<open>numeric_only=False\<close>).
\<close>

definition complete_pairs :: "column \<Rightarrow> column \<Rightarrow> (real \<times> real) list" where
  "complete_pairs x y =
     concat (map (\<lambda>(c, d). case c of
                              Num a \<Rightarrow> (case d of Num b \<Rightarrow> [(a, b)] | _ \<Rightarrow> [])
                            | _ \<Rightarrow> []) (zip x y))"

definition mean :: "real list \<Rightarrow> real" where
  "mean xs = sum_list xs / real (length xs)"

definition clip :: "real \<Rightarrow> real" where
  "clip v = (if v > 1 then 1 else if v < -1 then -1 else v)"

definition pearson :: "column \<Rightarrow> column \<Rightarrow> real option" where
  "pearson x y =
     (let ps = complete_pairs x y;
          mx = mean (map fst ps);
          my = mean (map snd ps);
          ssx = sum_list (map (\<lambda>(a, b). (a - mx) * (a - mx)) ps);
          ssy = sum_list (map (\<lambda>(a, b). (b - my) * (b - my)) ps);
          cov = sum_list (map (\<lambda>(a, b). (a - mx) * (b - my)) ps);
          divisor = sqrt (ssx * ssy)
      in if length ps < 1 then None
         else if divisor \<noteq> 0 then Some (clip (cov / divisor))
         else None)"

definition numeric_table :: "table \<Rightarrow> bool" where
  "numeric_table t = (\<forall>(name, col) \<in> set t. \<forall>c \<in> set col. \<not> is_str c)"

definition corr :: "table \<Rightarrow> error + string frame" where
  "corr t =
     (if numeric_table t
      then Inr (map (\<lambda>(n, y). (n, map (\<lambda>(m, x). (m, pearson x y)) t)) t)
      else Inl ValueError)"

subsection \<open>Series operations\<close>

definition drop_label :: "'l \<Rightarrow> 'l series \<Rightarrow> 'l series" where
  "drop_label l s = filter (\<lambda>(m, v). m \<noteq> l) s"

definition abs_series :: "'l series \<Rightarrow> 'l series" where
  "abs_series s = map (\<lambda>(m, v). (m, map_option abs v)) s"

text \<open>
  \<^verbatim>\<open>sort_values(ascending=False)\<close>: pandas reverses the values that are not NaN, sorts them
  in ascending order, reverses the result, and puts the NaN entries last. The sort keeps
  the order of equal keys, as numpy's default sort does on an array this short.
\<close>

definition sort_value :: "'l \<times> real option \<Rightarrow> real" where
  "sort_value e = (case snd e of Some r \<Rightarrow> r | None \<Rightarrow> 0)"

definition sort_values_desc :: "'l series \<Rightarrow> 'l series" where
  "sort_values_desc s =
     rev (sort_key sort_value (rev (filter (\<lambda>e. snd e \<noteq> None) s)))
       @ filter (\<lambda>e. snd e = None) s"

subsection \<open>The result bundle\<close>

datatype float = Finite real | PosInf | NegInf | NotANumber

record correlation_result =
  matrix :: "string frame"
  charges_correlations :: "string series"
  strongest_predictor :: string
  strongest_correlation :: "real option"

record basic_stats_result =
  descriptive :: "string frame"
  additional :: "string frame"

record test_result =
  statistic :: float
  p_value :: float
  significant :: bool

text \<open>
  The entries of the insights dictionary. In \<open>correlation_insight\<close> the fields stand for the
  keys \<^verbatim>\<open>strongest_predictor\<close>, \<^verbatim>\<open>correlation_value\<close> and \<^verbatim>\<open>interpretation\<close>.
\<close>

record correlation_insight =
  predictor :: string
  correlation_value :: "real option"
  strength :: string

record impact_insight =
  multiplier :: float
  difference :: "real option"
  high_group :: cell
  low_group :: cell

record insights_result =
  correlations :: "correlation_insight option"
  smoking_impact :: "impact_insight option"
  significant_factors :: "string list option"

text \<open>
  \<^verbatim>\<open>analysis_results\<close> is a dictionary keyed by the phase names; a phase that has not run
  has no entry. The group results map a dimension to a frame of aggregates indexed by the
  group labels.
\<close>

record result_bundle =
  basic_stats :: "basic_stats_result option"
  correlation :: "correlation_result option"
  groups :: "(string \<times> cell frame) list option"
  statistical_tests :: "(string \<times> test_result) list option"
  insights :: "insights_result option"

definition empty_bundle :: result_bundle where
  "empty_bundle =
     \<lparr> basic_stats = None, correlation = None, groups = None, statistical_tests = None,
       insights = None \<rparr>"

record analyzer =
  df_clean :: table
  df_labeled :: table
  analysis_results :: result_bundle

definition new_analyzer :: "table \<Rightarrow> table option \<Rightarrow> analyzer" where
  "new_analyzer clean labeled =
     \<lparr> df_clean = clean,
       df_labeled = (case labeled of None \<Rightarrow> clean | Some l \<Rightarrow> l),
       analysis_results = empty_bundle \<rparr>"

subsection \<open>\<^verbatim>\<open>correlation_analysis\<close>\<close>

text \<open>
  \<^verbatim>\<open>
  corr_matrix = self.df_clean.corr()
  charges_corr = corr_matrix['charges'].drop('charges').abs().sort_values(ascending=False)
  self.analysis_results['correlation'] = {
      'matrix': corr_matrix,
      'charges_correlations': charges_corr,
      'strongest_predictor': charges_corr.index[0],
      'strongest_correlation': charges_corr.iloc[0]
  }
  \<close>
\<close>

definition correlation_analysis :: "analyzer \<Rightarrow> error + (correlation_result \<times> analyzer)" where
  "correlation_analysis an =
     (case corr (analyzer.df_clean an) of
        Inl e \<Rightarrow> Inl e
      | Inr corr_matrix \<Rightarrow>
          (case map_of corr_matrix ''charges'' of
             None \<Rightarrow> Inl (KeyError ''charges'')
           | Some col \<Rightarrow>
               (let charges_corr = sort_values_desc (abs_series (drop_label ''charges'' col))
                in case charges_corr of
                     [] \<Rightarrow> Inl IndexError
                   | (name, v) # _ \<Rightarrow>
                       (let r = \<lparr> matrix = corr_matrix,
                                  charges_correlations = charges_corr,
                                  strongest_predictor = name,
                                  strongest_correlation = v \<rparr>
                        in Inr (r, an\<lparr>analysis_results :=
                                      (analysis_results an)\<lparr>correlation := Some r\<rparr>\<rparr>)))))"

subsection \<open>\<^verbatim>\<open>generate_insights\<close>\<close>

text \<open>A comparison with NaN is false, so NaN falls through to the last branch.\<close>

definition interpret_correlation :: "real option \<Rightarrow> string" where
  "interpret_correlation corr_value =
     (case map_option abs corr_value of
        None \<Rightarrow> ''Very weak''
      | Some abs_corr \<Rightarrow>
          if abs_corr \<ge> 0.7 then ''Strong''
          else if abs_corr \<ge> 0.5 then ''Moderate''
          else if abs_corr \<ge> 0.3 then ''Weak''
          else ''Very weak'')"

text \<open>
  \<^verbatim>\<open>Series.max()\<close>, \<^verbatim>\<open>min()\<close>, \<^verbatim>\<open>idxmax()\<close>, \<^verbatim>\<open>idxmin()\<close> skip NaN; on a Series with no
  value left the first two are NaN and the last two give a NaN label (pandas 1 and 2).
  \<^verbatim>\<open>idxmax\<close> is the label of the first entry that holds the maximum.
\<close>

definition present :: "'l series \<Rightarrow> ('l \<times> real) list" where
  "present s = concat (map (\<lambda>(l, v). case v of Some r \<Rightarrow> [(l, r)] | None \<Rightarrow> []) s)"

definition series_max :: "'l series \<Rightarrow> real option" where
  "series_max s =
     (case map snd (present s) of [] \<Rightarrow> None | r # rs \<Rightarrow> Some (fold max rs r))"

definition series_min :: "'l series \<Rightarrow> real option" where
  "series_min s =
     (case map snd (present s) of [] \<Rightarrow> None | r # rs \<Rightarrow> Some (fold min rs r))"

definition idxmax :: "cell series \<Rightarrow> cell" where
  "idxmax s =
     (case filter (\<lambda>(l, r). Some r = series_max s) (present s) of
        [] \<Rightarrow> NaN | (l, r) # _ \<Rightarrow> l)"

definition idxmin :: "cell series \<Rightarrow> cell" where
  "idxmin s =
     (case filter (\<lambda>(l, r). Some r = series_min s) (present s) of
        [] \<Rightarrow> NaN | (l, r) # _ \<Rightarrow> l)"

text \<open>
  Division of two numpy floats does not raise: a finite value over zero is an infinity of
  its sign, zero over zero and anything with NaN is NaN.
\<close>

definition np_divide :: "real option \<Rightarrow> real option \<Rightarrow> float" where
  "np_divide a b =
     (case a of
        None \<Rightarrow> NotANumber
      | Some x \<Rightarrow>
          (case b of
             None \<Rightarrow> NotANumber
           | Some y \<Rightarrow>
               if y \<noteq> 0 then Finite (x / y)
               else if x > 0 then PosInf
               else if x < 0 then NegInf
               else NotANumber))"

definition np_subtract :: "real option \<Rightarrow> real option \<Rightarrow> real option" where
  "np_subtract a b =
     (case a of None \<Rightarrow> None | Some x \<Rightarrow> (case b of None \<Rightarrow> None | Some y \<Rightarrow> Some (x - y)))"

text \<open>
  \<^verbatim>\<open>str.replace(old, new)\<close> for a non-empty \<^verbatim>\<open>old\<close>: every occurrence, from the left,
  without overlap.
\<close>

function replace_str :: "string \<Rightarrow> string \<Rightarrow> string \<Rightarrow> string" where
  "replace_str old new [] = []"
| "replace_str old new (c # cs) =
     (if old \<noteq> [] \<and> take (length old) (c # cs) = old
      then new @ replace_str old new (drop (length old) (c # cs))
      else c # replace_str old new cs)"
  by pat_completeness auto
termination
  by (relation "measure (\<lambda>(old, new, s). length s)") auto

text \<open>
  \<^verbatim>\<open>
  insights = {}
  if 'correlation' in self.analysis_results: ...
  if 'groups' in self.analysis_results:
      group_data = self.analysis_results['groups']
      if 'smoker' in group_data:
          smoker_means = group_data['smoker']['mean']
          if len(smoker_means) >= 2: ...
  if 'statistical_tests' in self.analysis_results: ...
  self.analysis_results['insights'] = insights
  return insights
  \<close>
\<close>

definition correlation_insights :: "result_bundle \<Rightarrow> correlation_insight option" where
  "correlation_insights b =
     (case correlation b of
        None \<Rightarrow> None
      | Some corr_data \<Rightarrow>
          Some \<lparr> predictor = strongest_predictor corr_data,
                 correlation_value = strongest_correlation corr_data,
                 strength = interpret_correlation (strongest_correlation corr_data) \<rparr>)"

definition smoking_insights :: "result_bundle \<Rightarrow> error + impact_insight option" where
  "smoking_insights b =
     (case groups b of
        None \<Rightarrow> Inr None
      | Some group_data \<Rightarrow>
          (case map_of group_data ''smoker'' of
             None \<Rightarrow> Inr None
           | Some smoker_stats \<Rightarrow>
               (case map_of smoker_stats ''mean'' of
                  None \<Rightarrow> Inl (KeyError ''mean'')
                | Some smoker_means \<Rightarrow>
                    if length smoker_means \<ge> 2 then
                      Inr (Some \<lparr> multiplier =
                                     np_divide (series_max smoker_means) (series_min smoker_means),
                                   difference =
                                     np_subtract (series_max smoker_means) (series_min smoker_means),
                                   high_group = idxmax smoker_means,
                                   low_group = idxmin smoker_means \<rparr>)
                    else Inr None)))"

definition factor_name :: "string \<Rightarrow> string" where
  "factor_name test_name = replace_str ''_anova'' [] (replace_str ''_ttest'' [] test_name)"

definition significance_insights :: "result_bundle \<Rightarrow> string list option" where
  "significance_insights b =
     (case statistical_tests b of
        None \<Rightarrow> None
      | Some test_data \<Rightarrow>
          Some (map (\<lambda>(test_name, results). factor_name test_name)
                  (filter (\<lambda>(test_name, results). significant results) test_data)))"

definition generate_insights :: "analyzer \<Rightarrow> error + (insights_result \<times> analyzer)" where
  "generate_insights an =
     (let b = analysis_results an
      in case smoking_insights b of
           Inl e \<Rightarrow> Inl e
         | Inr impact \<Rightarrow>
             (let ins = \<lparr> correlations = correlation_insights b,
                          smoking_impact = impact,
                          significant_factors = significance_insights b \<rparr>
              in Inr (ins, an\<lparr>analysis_results := b\<lparr>insights := Some ins\<rparr>\<rparr>)))"

definition empty_insights :: insights_result where
  "empty_insights = \<lparr> correlations = None, smoking_impact = None, significant_factors = None \<rparr>"

section \<open>Definitions for the statements\<close>

text \<open>
  What a raw age cell parses to: a missing cell has no value, a number is itself, a string
  goes through the parser.
\<close>

definition parse_cell :: "parsers \<Rightarrow> cell \<Rightarrow> real option" where
  "parse_cell P c = (case c of NaN \<Rightarrow> None | Num r \<Rightarrow> Some r | Str s \<Rightarrow> numeric_of P s)"

definition parseable :: "parsers \<Rightarrow> column \<Rightarrow> real list" where
  "parseable P col = concat (map (\<lambda>c. case parse_cell P c of Some r \<Rightarrow> [r] | None \<Rightarrow> []) col)"

definition unparseable_count :: "parsers \<Rightarrow> column \<Rightarrow> nat" where
  "unparseable_count P col = length (filter (\<lambda>c. parse_cell P c = None) col)"

text \<open>The fixed code-to-label mapping, with NaN for a code outside the domain.\<close>

definition sex_label_of :: "cell \<Rightarrow> cell" where
  "sex_label_of c = (if c = Num 1 then Str ''male'' else if c = Num 2 then Str ''female'' else NaN)"

definition smoker_label_of :: "cell \<Rightarrow> cell" where
  "smoker_label_of c = (if c = Num 0 then Str ''no'' else if c = Num 1 then Str ''yes'' else NaN)"

definition region_label_of :: "cell \<Rightarrow> cell" where
  "region_label_of c =
     (if c = Num 1 then Str ''northeast'' else if c = Num 2 then Str ''northwest''
      else if c = Num 3 then Str ''southeast'' else if c = Num 4 then Str ''southwest''
      else NaN)"

text \<open>A small clean table with codes inside and outside the domains.\<close>

definition small_clean :: table where
  "small_clean =
     [(''age'', [Num 30, Num 41]), (''sex'', [Num 1, Num 3]), (''bmi'', [Num 22, NaN]),
      (''children'', [Num 0, Num 2]), (''smoker'', [Num 1, Num 7]),
      (''region'', [Num 4, Num 0]), (''charges'', [Num 100, Num 250])]"

text \<open>A table without a \<^verbatim>\<open>charges\<close> column.\<close>

definition no_charges :: table where
  "no_charges = [(''age'', [Num 30, Num 41]), (''bmi'', [Num 22, Num 25])]"

text \<open>The smoker column without its sentinel cells, and two smoker columns.\<close>

definition non_sentinel :: "column \<Rightarrow> column" where
  "non_sentinel col = filter (\<lambda>c. c \<noteq> Str ''?'') col"

definition sentinel_example :: column where
  "sentinel_example = [Str ''0'', Str ''1'', Str ''0'', Str ''?'', Str ''1'']"

definition mostly_unknown :: column where
  "mostly_unknown = [Str ''1'', Str ''?'', Str ''?'']"

text \<open>
  A cell that holds an integer, a column of a table that exists and holds integers only, and
  a raw table with missing \<^verbatim>\<open>bmi\<close> and \<^verbatim>\<open>charges\<close> cells and codes outside the domains.
\<close>

definition is_int_cell :: "cell \<Rightarrow> bool" where
  "is_int_cell c = (case c of Num r \<Rightarrow> of_int \<lfloor>r\<rfloor> = r | _ \<Rightarrow> False)"

definition int_column :: "table \<Rightarrow> string \<Rightarrow> bool" where
  "int_column t name = (case get_col t name of Inl e \<Rightarrow> False | Inr col \<Rightarrow> list_all is_int_cell col)"

definition dirty_raw :: table where
  "dirty_raw =
     [(''age'', [Num 30, Num 41]), (''sex'', [Num 1, Num 5]), (''bmi'', [Num 22, NaN]),
      (''children'', [Num 0, Num 2]), (''smoker'', [Num 0, Num 1]),
      (''region'', [Num 4, Num 9]), (''charges'', [Num 100, NaN])]"

text \<open>
  \<^verbatim>\<open>corr[i][j]\<close>, a column with two different numbers in it, a table with a constant
  column, and the sum of squared deviations from the mean.
\<close>

definition entry :: "string frame \<Rightarrow> string \<Rightarrow> string \<Rightarrow> error + real option" where
  "entry m i j =
     (case map_of m i of
        None \<Rightarrow> Inl (KeyError i)
      | Some col \<Rightarrow> (case map_of col j of None \<Rightarrow> Inl (KeyError j) | Some v \<Rightarrow> Inr v))"

definition varies :: "column \<Rightarrow> bool" where
  "varies col = (\<exists>c \<in> set col. \<exists>d \<in> set col. is_num c \<and> is_num d \<and> c \<noteq> d)"

definition constant_sex :: table where
  "constant_sex = [(''sex'', [Num 1, Num 1]), (''charges'', [Num 100, Num 250])]"

definition ssq :: "real list \<Rightarrow> real" where
  "ssq xs = sum_list (map (\<lambda>a. (a - mean xs) * (a - mean xs)) xs)"

text \<open>
  The absolute correlation with \<^verbatim>\<open>charges\<close> of every other column, in table order; the
  values of a Series that are not NaN and their maximum; a table in which \<^verbatim>\<open>age\<close> falls
  and \<^verbatim>\<open>bmi\<close> rises with \<^verbatim>\<open>charges\<close>.
\<close>

definition charges_abs :: "table \<Rightarrow> column \<Rightarrow> string series" where
  "charges_abs t ch =
     map (\<lambda>(n, x). (n, map_option abs (pearson x ch))) (filter (\<lambda>(n, x). n \<noteq> ''charges'') t)"

definition defined_values :: "'l series \<Rightarrow> real list" where
  "defined_values s = map snd (present s)"

definition max_value :: "'l series \<Rightarrow> real" where
  "max_value s = Max (set (defined_values s))"

definition falling :: table where
  "falling = [(''age'', [Num 0, Num 2]), (''bmi'', [Num 2, Num 0]), (''charges'', [Num 2, Num 0])]"

section \<open>Columns of a table\<close>

lemma get_set_same: "get_col (set_col t n c) n = Inr c"
  by (simp add: get_col_def set_col_def update_conv')

lemma get_set_other: "m \<noteq> n \<Longrightarrow> get_col (set_col t n c) m = get_col t m"
  by (simp add: get_col_def set_col_def update_conv')

section \<open>Sequencing\<close>

text \<open>
  C3, as stated: \<^verbatim>\<open>clean_data\<close> before loading and \<^verbatim>\<open>create_labeled_data\<close> before cleaning
  fail with an error that is raised. On a fresh loader neither call raises: both return.
\<close>

theorem sequencing_counterexample:
  "\<not> isl (clean_data literal_parsers init_loader) \<and> \<not> isl (create_labeled_data init_loader)"
  by (simp add: clean_data_def create_labeled_data_def init_loader_def)

text \<open>
  C3, amended: with no raw table \<^verbatim>\<open>clean_data\<close> prints its refusal and returns \<open>None\<close>,
  leaving the loader as it was; with no clean table \<^verbatim>\<open>create_labeled_data\<close> prints its
  refusal and returns \<open>None\<close>. Neither raises.
\<close>

theorem sequencing_returns_none:
  "(df_raw lo = None \<longrightarrow> clean_data P lo = Inr (None, lo, [NoRawData])) \<and>
   (loader.df_clean lo = None \<longrightarrow> create_labeled_data lo = Inr (None, [NoCleanData]))"
  by (simp add: clean_data_def create_labeled_data_def)

theorem sequencing_returns_none_witness:
  "df_raw init_loader = None \<and> loader.df_clean init_loader = None \<and>
   clean_data literal_parsers init_loader = Inr (None, init_loader, [NoRawData]) \<and>
   create_labeled_data init_loader = Inr (None, [NoCleanData])"
  using sequencing_returns_none [of init_loader literal_parsers]
  by (simp add: init_loader_def)

section \<open>Age imputation\<close>

lemma coerce_cell:
  "to_numeric_coerce P col = map (\<lambda>c. case parse_cell P c of Some r \<Rightarrow> Num r | None \<Rightarrow> NaN) col"
  unfolding to_numeric_coerce_def parse_cell_def
  by (rule map_cong) (auto split: cell.splits option.splits)

lemma nums_coerce: "nums (to_numeric_coerce P col) = parseable P col"
  unfolding coerce_cell nums_def parseable_def
  by (induction col) (auto split: option.splits)

lemma isnull_coerce: "isnull_sum (to_numeric_coerce P col) = unparseable_count P col"
  unfolding coerce_cell isnull_sum_def unparseable_count_def
  by (induction col) (auto split: option.splits)

lemma fillna_coerce:
  "fillna v (to_numeric_coerce P col) =
     map (\<lambda>c. case parse_cell P c of Some r \<Rightarrow> Num r | None \<Rightarrow> v) col"
  unfolding coerce_cell fillna_def
  by (induction col) (auto split: option.splits)

lemma coerce_no_missing:
  "unparseable_count P col = 0 \<Longrightarrow>
   to_numeric_coerce P col = map (\<lambda>c. case parse_cell P c of Some r \<Rightarrow> Num r | None \<Rightarrow> v) col"
  unfolding coerce_cell unparseable_count_def
  by (induction col) (auto split: option.splits if_splits)

text \<open>
  C6: the age step of \<^verbatim>\<open>clean_data\<close> keeps every value that parses and puts, in the place
  of every value that does not, the median of exactly the values that parse; when there
  are M > 0 values that do not parse, it reports M together with that median. (The later
  cast to integer truncates the column.)
\<close>

theorem age_imputation:
  "clean_age P age =
     (map (\<lambda>c. case parse_cell P c of
                  Some r \<Rightarrow> Num r
                | None \<Rightarrow> median_of (parseable P age)) age,
      if unparseable_count P age > 0
      then [FilledAge (unparseable_count P age) (median_of (parseable P age))]
      else [])"
proof (cases "unparseable_count P age > 0")
  case True
  then show ?thesis
    by (simp add: clean_age_def Let_def isnull_coerce median_def nums_coerce fillna_coerce)
next
  case False
  then have z: "unparseable_count P age = 0" by simp
  show ?thesis
    using coerce_no_missing [OF z]
    by (simp add: clean_age_def Let_def isnull_coerce z)
qed

theorem age_imputation_witness:
  "clean_age literal_parsers [Str ''20'', Str ''x'', Str ''31'', NaN] =
     ([Num 20, Num (51 / 2), Num 31, Num (51 / 2)], [FilledAge 2 (Num (51 / 2))])"
  using age_imputation [of literal_parsers "[Str ''20'', Str ''x'', Str ''31'', NaN]"]
  by (simp add: parse_cell_def parseable_def unparseable_count_def median_of_def
      literal_parsers_def int_literal_def digit_of_def)

section \<open>Labels\<close>

lemma map_sex: "map_labels sex_labels col = map sex_label_of col"
  unfolding map_labels_def sex_labels_def sex_label_of_def
  by (rule map_cong) (auto split: cell.splits)

lemma map_smoker: "map_labels smoker_labels col = map smoker_label_of col"
  unfolding map_labels_def smoker_labels_def smoker_label_of_def
  by (rule map_cong) (auto split: cell.splits)

lemma map_region: "map_labels region_labels col = map region_label_of col"
  unfolding map_labels_def region_labels_def region_label_of_def
  by (rule map_cong) (auto split: cell.splits)

text \<open>
  C10: on a clean table with the columns \<^verbatim>\<open>sex\<close>, \<^verbatim>\<open>smoker\<close> and \<^verbatim>\<open>region\<close>,
  \<^verbatim>\<open>create_labeled_data\<close> does not raise; each label column holds, row by row, the label
  of the code when the code is in the domain and NaN when it is not.
\<close>

theorem labeling_total:
  assumes "loader.df_clean lo = Some t"
    and "get_col t ''sex'' = Inr sex"
    and "get_col t ''smoker'' = Inr smoker"
    and "get_col t ''region'' = Inr region"
  shows "\<exists>t'. create_labeled_data lo = Inr (Some t', []) \<and>
      get_col t' ''sex_label'' = Inr (map sex_label_of sex) \<and>
      get_col t' ''smoker_label'' = Inr (map smoker_label_of smoker) \<and>
      get_col t' ''region_label'' = Inr (map region_label_of region)"
  using assms
  by (simp add: create_labeled_data_def Let_def get_set_same get_set_other
      map_sex map_smoker map_region)

theorem labeling_total_witness:
  "\<exists>t'. create_labeled_data \<lparr> df_raw = None, df_clean = Some small_clean \<rparr> = Inr (Some t', []) \<and>
      get_col t' ''sex_label'' = Inr [Str ''male'', NaN] \<and>
      get_col t' ''smoker_label'' = Inr [Str ''yes'', NaN] \<and>
      get_col t' ''region_label'' = Inr [Str ''southwest'', NaN]"
  using labeling_total [of "\<lparr> df_raw = None, df_clean = Some small_clean \<rparr>" small_clean
      "[Num 1, Num 3]" "[Num 1, Num 7]" "[Num 4, Num 0]"]
  by (simp add: small_clean_def get_col_def sex_label_of_def smoker_label_of_def region_label_of_def)

section \<open>Insights\<close>

text \<open>
  C9: when the bundle has no \<^verbatim>\<open>correlation\<close>, \<^verbatim>\<open>groups\<close> or \<^verbatim>\<open>statistical_tests\<close> entry,
  \<^verbatim>\<open>generate_insights\<close> raises nothing, returns the empty insights dictionary and stores
  it under \<^verbatim>\<open>insights\<close>, leaving the rest of the analyzer as it was.
\<close>

theorem insights_on_empty_bundle:
  assumes "correlation (analysis_results an) = None"
    and "groups (analysis_results an) = None"
    and "statistical_tests (analysis_results an) = None"
  shows "generate_insights an =
     Inr (empty_insights,
          an\<lparr>analysis_results := (analysis_results an)\<lparr>insights := Some empty_insights\<rparr>\<rparr>)"
  using assms
  by (simp add: generate_insights_def Let_def smoking_insights_def correlation_insights_def
      significance_insights_def empty_insights_def)

theorem insights_on_empty_bundle_witness:
  "generate_insights (new_analyzer small_clean None) =
     Inr (empty_insights,
          \<lparr> df_clean = small_clean, df_labeled = small_clean,
            analysis_results = empty_bundle\<lparr>insights := Some empty_insights\<rparr> \<rparr>)"
  using insights_on_empty_bundle [of "new_analyzer small_clean None"]
  by (simp add: new_analyzer_def empty_bundle_def)

section \<open>Correlation analysis\<close>

lemma corr_columns: "corr t = Inr m \<Longrightarrow> map fst m = map fst t"
  by (auto simp: corr_def split: if_splits)

text \<open>
  C5: when the clean table has no \<^verbatim>\<open>charges\<close> column, \<^verbatim>\<open>correlation_analysis\<close> fails; on
  a table of numeric columns the error is the \<^verbatim>\<open>KeyError\<close> for \<^verbatim>\<open>charges\<close> raised by the
  lookup in the correlation matrix.
\<close>

theorem missing_charges:
  assumes "''charges'' \<notin> set (columns (analyzer.df_clean an))"
  shows "isl (correlation_analysis an) \<and>
     (numeric_table (analyzer.df_clean an) \<longrightarrow>
        correlation_analysis an = Inl (KeyError ''charges''))"
proof (cases "corr (analyzer.df_clean an)")
  case (Inl e)
  then show ?thesis
    by (auto simp: correlation_analysis_def corr_def split: if_splits)
next
  case (Inr m)
  then have "map fst m = map fst (analyzer.df_clean an)" by (rule corr_columns)
  with assms have "''charges'' \<notin> fst ` set m"
    by (metis columns_def set_map)
  then have "map_of m ''charges'' = None"
    by (simp add: map_of_eq_None_iff)
  with Inr show ?thesis
    by (simp add: correlation_analysis_def)
qed

theorem missing_charges_witness:
  "''charges'' \<notin> set (columns no_charges) \<and>
   correlation_analysis (new_analyzer no_charges None) = Inl (KeyError ''charges'')"
  using missing_charges [of "new_analyzer no_charges None"]
  by (simp add: new_analyzer_def no_charges_def columns_def numeric_table_def is_str_def)

section \<open>Smoker sentinel\<close>

lemma max_count_Max: "max_count vs = Max (insert 0 (count_list vs ` set vs))"
proof -
  have "fold max (map (count_list vs) vs) 0 = Max (set (0 # map (count_list vs) vs))"
    by (rule Max.set_eq_fold [symmetric])
  then show ?thesis by (simp add: max_count_def)
qed

lemma count_le_max_count: "count_list vs k \<le> max_count vs"
proof (cases "k \<in> set vs")
  case True
  then show ?thesis unfolding max_count_Max by (intro Max_ge) auto
next
  case False
  then show ?thesis by (simp add: count_list_0_iff)
qed

lemma max_count_attained:
  assumes "vs \<noteq> []"
  shows "\<exists>k \<in> set vs. count_list vs k = max_count vs"
proof -
  have "Max (insert 0 (count_list vs ` set vs)) \<in> insert 0 (count_list vs ` set vs)"
    by (intro Max_in) auto
  then consider "max_count vs = 0" | "max_count vs \<in> count_list vs ` set vs"
    unfolding max_count_Max by auto
  then show ?thesis
  proof cases
    case 1
    from assms obtain k where k: "k \<in> set vs" by (cases vs) auto
    then have "count_list vs k > 0" using count_list_0_iff [of vs k] by auto
    with count_le_max_count [of vs k] 1 show ?thesis by simp
  next
    case 2
    then show ?thesis by auto
  qed
qed

lemma count_list_filter:
  "count_list (filter P xs) k = (if P k then count_list xs k else 0)"
  by (induction xs) auto

lemma unique_filter: "unique (filter P xs) = filter P (unique xs)"
  by (simp add: unique_def rev_filter remdups_filter)

lemma set_unique [simp]: "set (unique xs) = set xs"
  by (simp add: unique_def)

lemma set_np_sort [simp]: "set (np_sort vs) = set vs"
  by (simp add: np_sort_def)

lemma dropna_non_sentinel:
  "dropna (non_sentinel col) = filter (\<lambda>c. c \<noteq> Str ''?'') (dropna col)"
  by (induction col) (auto simp: dropna_def non_sentinel_def)

lemma mode_non_sentinel:
  assumes "Str ''?'' \<notin> set (mode col)"
  shows "mode (non_sentinel col) = mode col"
proof (cases "Str ''?'' \<in> set (dropna col)")
  case False
  then have "filter (\<lambda>c. c \<noteq> Str ''?'') (dropna col) = dropna col"
    by (auto intro: filter_True)
  then show ?thesis by (simp add: mode_def dropna_non_sentinel)
next
  case True
  define vs where "vs = dropna col"
  define ws where "ws = filter (\<lambda>c. c \<noteq> Str ''?'') vs"
  define M where "M = max_count vs"
  from True have qin: "Str ''?'' \<in> set vs" by (simp add: vs_def)
  from assms have "count_list vs (Str ''?'') \<noteq> M"
    using qin by (auto simp: mode_def Let_def vs_def M_def)
  with count_le_max_count [of vs "Str ''?''"] have qlt: "count_list vs (Str ''?'') < M"
    by (simp add: M_def)
  from qin have "vs \<noteq> []" by auto
  then obtain k where k: "k \<in> set vs" "count_list vs k = M"
    using max_count_attained [of vs] by (auto simp: M_def)
  with qlt have kq: "k \<noteq> Str ''?''" by auto
  have cnt: "count_list ws c = count_list vs c" if "c \<noteq> Str ''?''" for c
    using that by (simp add: ws_def count_list_filter)
  have "max_count ws = M"
  proof (rule antisym)
    have "count_list ws c \<le> M" for c
      using count_le_max_count [of vs c] by (simp add: ws_def count_list_filter M_def)
    then show "max_count ws \<le> M"
      unfolding max_count_Max by (subst Max_le_iff) auto
    have "count_list ws k \<le> max_count ws" by (rule count_le_max_count)
    with cnt [OF kq] k show "M \<le> max_count ws" by simp
  qed
  then have "filter (\<lambda>c. count_list ws c = max_count ws) (unique ws) =
      filter (\<lambda>c. c \<noteq> Str ''?'' \<and> count_list ws c = M) (unique vs)"
    by (simp add: ws_def unique_filter conj_commute)
  also have "\<dots> = filter (\<lambda>c. count_list vs c = M) (unique vs)"
  proof (intro filter_cong refl)
    fix c
    show "(c \<noteq> Str ''?'' \<and> count_list ws c = M) = (count_list vs c = M)"
    proof (cases "c = Str ''?''")
      case True
      with qlt show ?thesis by simp
    next
      case False
      with cnt [OF False] show ?thesis by simp
    qed
  qed
  finally show ?thesis
    by (simp add: mode_def Let_def dropna_non_sentinel vs_def [symmetric] ws_def [symmetric] M_def)
qed


lemmas eval_defs = clean_smoker_def smoker_mode_def mode_def dropna_def unique_def
  max_count_def np_sort_def is_num_def is_str_def str_val_def num_val_def shows_qmark_def
  printed_def replace_cell_def to_numeric_def to_numeric_coerce_def literal_parsers_def
  int_literal_def digit_of_def non_sentinel_def

text \<open>
  C1, as stated: every \<^verbatim>\<open>?\<close> is replaced by the mode of the non-sentinel values, and by 0
  only when that mode is ambiguous. In the column \<^verbatim>\<open>1, ?, ?\<close> the non-sentinel values have
  the single mode 1, yet both sentinels become 0.
\<close>

theorem smoker_sentinel_counterexample:
  "mode (non_sentinel mostly_unknown) = [Str ''1''] \<and>
   clean_smoker literal_parsers mostly_unknown = Inr [Num 1, Num 0, Num 0]"
  by (simp add: mostly_unknown_def eval_defs)

lemma shows_qmark_member:
  "Str ''?'' \<in> set vs \<Longrightarrow> length vs \<le> 1000 \<Longrightarrow> shows_qmark vs"
  by (auto simp: shows_qmark_def printed_def intro!: bexI [of _ "Str ''?''"])

text \<open>
  C1, amended: the mode is taken over the whole column, sentinels included. When \<^verbatim>\<open>?\<close> is
  itself one of the most frequent values, every \<^verbatim>\<open>?\<close> is replaced by 0; when the printed
  most frequent values show no \<^verbatim>\<open>?\<close>, every \<^verbatim>\<open>?\<close> is replaced by the first mode of the
  non-sentinel values (both for at most 1000 most frequent values, which numpy prints in
  full). For the column \<^verbatim>\<open>0, 1, 0, ?, 1\<close> the cleaned column is \<^verbatim>\<open>0, 1, 0, 0, 1\<close>.
\<close>

theorem smoker_sentinel_replacement:
  "clean_smoker literal_parsers sentinel_example = Inr [Num 0, Num 1, Num 0, Num 0, Num 1] \<and>
   (Str ''?'' \<in> set (mode smoker) \<and> length (mode smoker) \<le> 1000 \<longrightarrow>
      clean_smoker P smoker = to_numeric P (replace_cell (Str ''?'') (Str ''0'') smoker)) \<and>
   (\<not> shows_qmark (mode smoker) \<and> length (mode smoker) \<le> 1000 \<longrightarrow>
      clean_smoker P smoker =
        (case mode (non_sentinel smoker) of
           [] \<Rightarrow> Inl (KeyError ''0'')
         | m # _ \<Rightarrow> to_numeric P (replace_cell (Str ''?'') m smoker)))"
proof (intro conjI impI)
  show "clean_smoker literal_parsers sentinel_example = Inr [Num 0, Num 1, Num 0, Num 0, Num 1]"
    by (simp add: sentinel_example_def eval_defs)
next
  assume "Str ''?'' \<in> set (mode smoker) \<and> length (mode smoker) \<le> 1000"
  then have "shows_qmark (mode smoker)" by (simp add: shows_qmark_member)
  then show "clean_smoker P smoker = to_numeric P (replace_cell (Str ''?'') (Str ''0'') smoker)"
    by (simp add: clean_smoker_def smoker_mode_def)
next
  assume a: "\<not> shows_qmark (mode smoker) \<and> length (mode smoker) \<le> 1000"
  then have "Str ''?'' \<notin> set (mode smoker)"
    using shows_qmark_member [of "mode smoker"] by blast
  then have "mode (non_sentinel smoker) = mode smoker" by (rule mode_non_sentinel)
  with a show "clean_smoker P smoker =
        (case mode (non_sentinel smoker) of
           [] \<Rightarrow> Inl (KeyError ''0'')
         | m # _ \<Rightarrow> to_numeric P (replace_cell (Str ''?'') m smoker))"
    by (simp add: clean_smoker_def smoker_mode_def split: list.splits)
qed

theorem smoker_sentinel_replacement_witness:
  "Str ''?'' \<in> set (mode mostly_unknown) \<and> length (mode mostly_unknown) \<le> 1000 \<and>
   clean_smoker literal_parsers mostly_unknown =
     to_numeric literal_parsers (replace_cell (Str ''?'') (Str ''0'') mostly_unknown) \<and>
   \<not> shows_qmark (mode sentinel_example) \<and> length (mode sentinel_example) \<le> 1000 \<and>
   mode (non_sentinel sentinel_example) = [Str ''0'', Str ''1''] \<and>
   clean_smoker literal_parsers sentinel_example =
     to_numeric literal_parsers (replace_cell (Str ''?'') (Str ''0'') sentinel_example)"
proof -
  have m1: "mode mostly_unknown = [Str ''?'']"
    by (simp add: mostly_unknown_def eval_defs)
  have m2: "mode sentinel_example = [Str ''0'', Str ''1'']"
    by (simp add: sentinel_example_def eval_defs)
  have m3: "mode (non_sentinel sentinel_example) = [Str ''0'', Str ''1'']"
    by (simp add: sentinel_example_def eval_defs)
  have q: "\<not> shows_qmark [Str ''0'', Str ''1'']"
    by (simp add: shows_qmark_def printed_def)
  have a: "clean_smoker literal_parsers mostly_unknown =
     to_numeric literal_parsers (replace_cell (Str ''?'') (Str ''0'') mostly_unknown)"
    using smoker_sentinel_replacement [of mostly_unknown literal_parsers, THEN conjunct2, THEN conjunct1]
    by (simp add: m1)
  have b: "clean_smoker literal_parsers sentinel_example =
     to_numeric literal_parsers (replace_cell (Str ''?'') (Str ''0'') sentinel_example)"
    using smoker_sentinel_replacement [of sentinel_example literal_parsers, THEN conjunct2, THEN conjunct2]
    by (simp add: m2 m3 q)
  show ?thesis
    using a b by (simp add: m1 m2 m3 q)
qed

section \<open>The clean table\<close>

lemma astype_int_cell_int: "astype_int_cell P c = Inr c' \<Longrightarrow> is_int_cell c'"
  by (auto simp: astype_int_cell_def is_int_cell_def split: cell.splits option.splits)

lemma astype_int_ints: "astype_int P col = Inr col' \<Longrightarrow> list_all is_int_cell col'"
  by (induction col arbitrary: col')
    (auto split: sum.splits dest: astype_int_cell_int)

lemma astype_int_col_inv:
  assumes "astype_int_col P m t = Inr t'"
  shows "int_column t' m" and "n \<noteq> m \<Longrightarrow> get_col t' n = get_col t n"
  using assms
  by (auto simp: astype_int_col_def int_column_def get_set_same get_set_other
      split: sum.splits dest: astype_int_ints)

lemma convert_types_inv:
  "convert_types P names t = Inr t' \<Longrightarrow>
     (\<forall>n \<in> set names. int_column t' n) \<and> (\<forall>n. n \<notin> set names \<longrightarrow> get_col t' n = get_col t n)"
proof (induction names arbitrary: t)
  case Nil
  then show ?case by simp
next
  case (Cons m names)
  from Cons.prems obtain t1 where
    t1: "astype_int_col P m t = Inr t1" and rest: "convert_types P names t1 = Inr t'"
    by (auto split: sum.splits)
  note ih = Cons.IH [OF rest]
  have other: "get_col t' n = get_col t n" if "n \<notin> set (m # names)" for n
    using that ih astype_int_col_inv(2) [OF t1, of n] by auto
  have "int_column t' m"
  proof (cases "m \<in> set names")
    case True
    with ih show ?thesis by blast
  next
    case False
    with ih have "get_col t' m = get_col t1 m" by blast
    with astype_int_col_inv(1) [OF t1] show ?thesis by (simp add: int_column_def)
  qed
  with ih other show ?case by auto
qed

text \<open>
  C4, as stated: a clean table has no null value in any column and every categorical code
  is in its domain. \<^verbatim>\<open>clean_data\<close> accepts the table below and returns it with its missing
  \<^verbatim>\<open>bmi\<close> and \<^verbatim>\<open>charges\<close> cells, the sex code 5 and the region code 9.
\<close>

theorem clean_table_counterexample:
  "\<exists>lo' msgs. clean_data literal_parsers \<lparr> df_raw = Some dirty_raw, df_clean = None \<rparr> =
        Inr (Some dirty_raw, lo', msgs) \<and>
     get_col dirty_raw ''bmi'' = Inr [Num 22, NaN] \<and>
     get_col dirty_raw ''charges'' = Inr [Num 100, NaN] \<and>
     get_col dirty_raw ''sex'' = Inr [Num 1, Num 5] \<and>
     get_col dirty_raw ''region'' = Inr [Num 4, Num 9]"
  by (simp add: dirty_raw_def clean_data_def clean_age_def Let_def get_col_def set_col_def
      isnull_sum_def clean_smoker_def smoker_mode_def mode_def dropna_def unique_def
      max_count_def np_sort_def is_num_def is_str_def str_val_def num_val_def shows_qmark_def
      printed_def replace_cell_def to_numeric_def to_numeric_coerce_def int_columns_def
      astype_int_col_def astype_int_cell_def trunc_def total_missing_def)

text \<open>
  C4, amended: when \<^verbatim>\<open>clean_data\<close> returns a table, its columns \<^verbatim>\<open>age\<close>, \<^verbatim>\<open>sex\<close>,
  \<^verbatim>\<open>children\<close>, \<^verbatim>\<open>smoker\<close> and \<^verbatim>\<open>region\<close> exist and hold integers, hence no null; every
  other column, \<^verbatim>\<open>bmi\<close> and \<^verbatim>\<open>charges\<close> among them, is the raw column unchanged, nulls
  included; the codes are not checked against their domains. The table is stored as the
  loader's clean table, and the last message reports the number of nulls left in it.
\<close>

theorem clean_table_invariant:
  assumes "clean_data P lo = Inr (Some t, lo', msgs)"
  shows "(\<forall>name \<in> set int_columns. int_column t name) \<and>
     (\<forall>raw name. df_raw lo = Some raw \<and> name \<notin> set int_columns \<longrightarrow>
        get_col t name = get_col raw name) \<and>
     loader.df_clean lo' = Some t \<and>
     (\<exists>pre. msgs = pre @ [CleaningComplete (total_missing t)])"
proof -
  from assms obtain raw where raw: "df_raw lo = Some raw"
    by (auto simp: clean_data_def split: option.splits)
  from assms raw obtain age where age: "get_col raw ''age'' = Inr age"
    by (auto simp: clean_data_def split: sum.splits)
  define t1 where "t1 = set_col raw ''age'' (fst (clean_age P age))"
  from assms raw age obtain smoker where smoker: "get_col t1 ''smoker'' = Inr smoker"
    by (auto simp: clean_data_def Let_def t1_def split: sum.splits prod.splits)
  from assms raw age smoker obtain smoker' where
    smoker': "clean_smoker P smoker = Inr smoker'"
    by (auto simp: clean_data_def Let_def t1_def split: sum.splits prod.splits)
  define t2 where "t2 = set_col t1 ''smoker'' smoker'"
  from assms raw age smoker smoker' have
    conv: "convert_types P int_columns t2 = Inr t" and lo': "lo' = lo\<lparr>loader.df_clean := Some t\<rparr>"
    and msgs: "msgs = snd (clean_age P age) @ [CleaningComplete (total_missing t)]"
    by (auto simp: clean_data_def Let_def t1_def t2_def split: sum.splits prod.splits)
  note inv = convert_types_inv [OF conv]
  have "get_col t name = get_col raw name" if "name \<notin> set int_columns" for name
  proof -
    from that have ne: "name \<noteq> ''age''" "name \<noteq> ''smoker''"
      by (auto simp: int_columns_def)
    from inv that have "get_col t name = get_col t2 name" by blast
    with ne show ?thesis by (simp add: t2_def t1_def get_set_other)
  qed
  with inv raw lo' msgs show ?thesis by auto
qed

theorem clean_table_invariant_witness:
  "clean_data literal_parsers \<lparr> df_raw = Some dirty_raw, df_clean = None \<rparr> =
     Inr (Some dirty_raw, \<lparr> df_raw = Some dirty_raw, df_clean = Some dirty_raw \<rparr>,
          [CleaningComplete 2]) \<and>
   int_column dirty_raw ''age'' \<and> int_column dirty_raw ''sex'' \<and>
   int_column dirty_raw ''children'' \<and> int_column dirty_raw ''smoker'' \<and>
   int_column dirty_raw ''region'' \<and>
   get_col dirty_raw ''bmi'' = Inr [Num 22, NaN]"
proof -
  have c: "clean_data literal_parsers \<lparr> df_raw = Some dirty_raw, df_clean = None \<rparr> =
     Inr (Some dirty_raw, \<lparr> df_raw = Some dirty_raw, df_clean = Some dirty_raw \<rparr>,
          [CleaningComplete 2])"
    by (simp add: dirty_raw_def clean_data_def clean_age_def Let_def get_col_def set_col_def
      isnull_sum_def clean_smoker_def smoker_mode_def mode_def dropna_def unique_def
      max_count_def np_sort_def is_num_def is_str_def str_val_def num_val_def shows_qmark_def
      printed_def replace_cell_def to_numeric_def to_numeric_coerce_def int_columns_def
      astype_int_col_def astype_int_cell_def trunc_def total_missing_def)
  show ?thesis
    using clean_table_invariant [OF c] c
    by (simp add: int_columns_def) (simp add: dirty_raw_def get_col_def)
qed

section \<open>The correlation matrix\<close>

lemma complete_pairs_swap:
  "complete_pairs y x = map (\<lambda>(a, b). (b, a)) (complete_pairs x y)"
proof (induction x arbitrary: y)
  case Nil
  then show ?case by (simp add: complete_pairs_def)
next
  case (Cons c cs)
  then show ?case
    by (cases y) (auto simp: complete_pairs_def split: cell.splits)
qed

lemma pearson_sym: "pearson x y = pearson y x"
proof -
  have sw: "map fst (map (\<lambda>(a, b). (b, a)) ps) = map snd ps"
    "map snd (map (\<lambda>(a, b). (b, a)) ps) = map fst ps" for ps :: "(real \<times> real) list"
    by (induction ps) auto
  have m: "map (\<lambda>(a, b). f a b) (map (\<lambda>(a, b). (b, a)) ps) = map (\<lambda>(a, b). f b a) ps"
    for f :: "real \<Rightarrow> real \<Rightarrow> real" and ps
    by (induction ps) auto
  show ?thesis
    unfolding pearson_def [of y x] complete_pairs_swap [of y x]
    unfolding pearson_def [of x y] Let_def sw m length_map
    by (simp add: mult.commute)
qed

lemma complete_pairs_self:
  "complete_pairs x x = map (\<lambda>a. (a, a)) (nums x)"
  by (induction x) (auto simp: complete_pairs_def nums_def split: cell.splits)

lemma pearson_self:
  "pearson x x = (if nums x \<noteq> [] \<and> ssq (nums x) \<noteq> 0 then Some 1 else None)"
proof -
  have f: "map fst (map (\<lambda>a. (a, a)) xs) = xs" "map snd (map (\<lambda>a. (a, a)) xs) = xs"
    for xs :: "real list"
    by (induction xs) auto
  have g: "map (\<lambda>(a, b). h a b) (map (\<lambda>a. (a, a)) xs) = map (\<lambda>a. h a a) xs"
    for h :: "real \<Rightarrow> real \<Rightarrow> real" and xs
    by (induction xs) auto
  have nn: "0 \<le> ssq xs" for xs
    unfolding ssq_def by (rule sum_list_nonneg) auto
  have "pearson x x =
      (if length (nums x) < 1 then None
       else if sqrt (ssq (nums x) * ssq (nums x)) \<noteq> 0
            then Some (clip (ssq (nums x) / sqrt (ssq (nums x) * ssq (nums x))))
            else None)"
    unfolding pearson_def complete_pairs_self Let_def f g length_map ssq_def ..
  also have "\<dots> = (if nums x \<noteq> [] \<and> ssq (nums x) \<noteq> 0 then Some 1 else None)"
    using nn [of "nums x"]
    by (auto simp: clip_def real_sqrt_mult_self less_Suc0)
  finally show ?thesis .
qed

lemma ssq_zero_iff:
  assumes "xs \<noteq> []"
  shows "ssq xs = 0 \<longleftrightarrow> (\<forall>a \<in> set xs. \<forall>b \<in> set xs. a = b)"
proof
  assume "ssq xs = 0"
  then have "\<forall>a \<in> set xs. (a - mean xs) * (a - mean xs) = 0"
    unfolding ssq_def
    by (subst (asm) sum_list_nonneg_eq_0_iff) auto
  then have "\<forall>a \<in> set xs. a = mean xs" by simp
  then show "\<forall>a \<in> set xs. \<forall>b \<in> set xs. a = b" by metis
next
  assume eq: "\<forall>a \<in> set xs. \<forall>b \<in> set xs. a = b"
  from assms obtain v where v: "v \<in> set xs" by (cases xs) auto
  with eq have all: "\<forall>a \<in> set xs. a = v" by blast
  then have "xs = replicate (length xs) v"
    by (simp add: replicate_length_same)
  then have "sum_list xs = real (length xs) * v"
    by (metis sum_list_replicate)
  with assms have "mean xs = v" by (simp add: mean_def)
  with all have "map (\<lambda>a. (a - mean xs) * (a - mean xs)) xs = map (\<lambda>a. 0) xs"
    by (intro map_cong) auto
  then have "ssq xs = sum_list (map (\<lambda>a. 0) xs)"
    unfolding ssq_def by (rule arg_cong)
  then show "ssq xs = 0" by simp
qed

lemma varies_nums: "varies x \<longleftrightarrow> (\<exists>a \<in> set (nums x). \<exists>b \<in> set (nums x). a \<noteq> b)"
proof -
  have s: "set (nums x) = {a. Num a \<in> set x}"
    by (induction x) (auto simp: nums_def split: cell.splits)
  have n: "is_num c \<longleftrightarrow> (\<exists>a. c = Num a)" for c
    by (cases c) (simp_all add: is_num_def)
  show ?thesis
    unfolding varies_def s n
    by (rule iffI) (fastforce, blast)
qed

lemma pearson_diag: "pearson x x = (if varies x then Some 1 else None)"
proof (cases "nums x = []")
  case True
  then show ?thesis by (simp add: pearson_self varies_nums)
next
  case False
  then show ?thesis
    using ssq_zero_iff [OF False] by (auto simp: pearson_self varies_nums)
qed


lemma corr_entry:
  assumes "numeric_table t" and "get_col t i = Inr y" and "get_col t j = Inr x"
  shows "\<exists>m. corr t = Inr m \<and> entry m i j = Inr (pearson x y)"
proof -
  from assms(2) have i: "map_of t i = Some y"
    by (auto simp: get_col_def split: option.splits)
  from assms(3) have j: "map_of t j = Some x"
    by (auto simp: get_col_def split: option.splits)
  define row where "row = (\<lambda>y. map (\<lambda>(m, x). (m, pearson x y)) t)"
  have c: "corr t = Inr (map (\<lambda>(n, y). (n, row y)) t)"
    using assms(1) by (simp add: corr_def row_def)
  have "map_of (map (\<lambda>(n, y). (n, row y)) t) i = Some (row y)"
    by (simp add: map_of_map i)
  moreover have "map_of (row y) j = Some (pearson x y)"
    unfolding row_def
    using map_of_map [of "\<lambda>x. pearson x y" t] j by simp
  ultimately have "entry (map (\<lambda>(n, y). (n, row y)) t) i j = Inr (pearson x y)"
    by (simp add: entry_def)
  with c show ?thesis by blast
qed

text \<open>
  C7, as stated: the matrix is symmetric and every diagonal entry is 1.0. For a constant
  column the divisor is zero and the diagonal entry is NaN.
\<close>

theorem correlation_matrix_counterexample:
  "\<exists>m. corr constant_sex = Inr m \<and> entry m ''sex'' ''sex'' = Inr None"
  by (simp add: constant_sex_def corr_def numeric_table_def is_str_def entry_def pearson_def
      complete_pairs_def mean_def Let_def)

text \<open>
  C7, amended: on a table of numeric columns the matrix is symmetric (the two entries are
  the same number, or both NaN), and the diagonal entry of a column is 1 when the column
  holds two different numbers and NaN otherwise.
\<close>

theorem correlation_matrix_symmetric:
  assumes "numeric_table t" and "get_col t i = Inr x" and "get_col t j = Inr y"
  shows "\<exists>m. corr t = Inr m \<and> entry m i j = entry m j i \<and>
     entry m i i = Inr (if varies x then Some 1 else None)"
proof -
  from corr_entry [OF assms(1) assms(2) assms(3)] obtain m where
    m: "corr t = Inr m" and ij: "entry m i j = Inr (pearson y x)" by blast
  from corr_entry [OF assms(1) assms(3) assms(2)] m have ji: "entry m j i = Inr (pearson x y)"
    by auto
  from corr_entry [OF assms(1) assms(2) assms(2)] m have ii: "entry m i i = Inr (pearson x x)"
    by auto
  from m ij ji ii show ?thesis
    by (simp add: pearson_sym [of x y] pearson_diag)
qed

theorem correlation_matrix_symmetric_witness:
  "\<exists>m. corr small_clean = Inr m \<and>
     entry m ''age'' ''charges'' = entry m ''charges'' ''age'' \<and>
     entry m ''age'' ''age'' = Inr (Some 1) \<and>
     get_col small_clean ''age'' = Inr [Num 30, Num 41] \<and>
     get_col small_clean ''charges'' = Inr [Num 100, Num 250]"
proof -
  have n: "numeric_table small_clean"
    by (simp add: small_clean_def numeric_table_def is_str_def)
  have a: "get_col small_clean ''age'' = Inr [Num 30, Num 41]"
    by (simp add: small_clean_def get_col_def)
  have c: "get_col small_clean ''charges'' = Inr [Num 100, Num 250]"
    by (simp add: small_clean_def get_col_def)
  have v: "varies [Num 30, Num 41]"
    by (simp add: varies_def is_num_def)
  show ?thesis
    using correlation_matrix_symmetric [OF n a c] a c by (simp add: v)
qed

section \<open>The strongest predictor\<close>

lemma pearson_falling:
  "pearson [Num 0, Num 2] [Num 2, Num 0] = Some (-1)"
  "pearson [Num 2, Num 0] [Num 2, Num 0] = Some 1"
  by (simp_all add: pearson_def complete_pairs_def mean_def clip_def Let_def)

lemma sorted_le_last: "sorted xs \<Longrightarrow> x \<in> set xs \<Longrightarrow> x \<le> last xs"
  for xs :: "real list"
proof (induction xs)
  case Nil
  then show ?case by simp
next
  case (Cons a xs)
  then show ?case by (cases xs) auto
qed

lemma last_filter_same: "xs \<noteq> [] \<Longrightarrow> P (last xs) \<Longrightarrow> last (filter P xs) = last xs"
  by (induction xs) (auto simp: filter_empty_conv)

lemma find_hd_filter: "filter P xs \<noteq> [] \<Longrightarrow> find P xs = Some (hd (filter P xs))"
  by (induction xs) auto

lemma sort_desc_last:
  fixes d :: "('l \<times> real option) list"
  assumes "d \<noteq> []"
  defines "M \<equiv> Max (sort_value ` set d)"
  shows "last (sort_key sort_value (rev d)) = hd (filter (\<lambda>e. sort_value e = M) d)"
proof -
  define ys where "ys = sort_key sort_value (rev d)"
  have ne: "ys \<noteq> []" using assms(1) by (auto simp: ys_def dest: arg_cong [where f = length])
  have st: "set ys = set d" by (simp add: ys_def)
  have so: "sorted (map sort_value ys)" by (simp add: ys_def sorted_sort_key)
  have l: "last (map sort_value ys) = sort_value (last ys)"
    using ne by (simp add: last_map)
  have le: "sort_value y \<le> sort_value (last ys)" if "y \<in> set d" for y
    using sorted_le_last [OF so, of "sort_value y"] that l st by auto
  have "last ys \<in> set d" using ne st last_in_set [of ys] by simp
  then have "Max (sort_value ` set d) = sort_value (last ys)"
    using le by (intro Max_eqI) auto
  then have "M = sort_value (last ys)" by (simp add: M_def)
  then have "last (filter (\<lambda>e. sort_value e = M) ys) = last ys"
    using ne by (intro last_filter_same) auto
  moreover have "filter (\<lambda>e. sort_value e = M) ys = rev (filter (\<lambda>e. sort_value e = M) d)"
    by (simp add: ys_def sort_key_stable rev_filter)
  ultimately show ?thesis
    by (simp add: ys_def last_rev)
qed

lemma present_filter:
  "map (\<lambda>(l, r). (l, Some r)) (present s) = filter (\<lambda>e. snd e \<noteq> None) s"
  by (induction s) (auto simp: present_def split: option.splits)

lemma sort_values_desc_first:
  fixes s :: "('l \<times> real option) list"
  assumes "defined_values s \<noteq> []"
  shows "\<exists>rest. sort_values_desc s = the (find (\<lambda>e. snd e = Some (max_value s)) s) # rest \<and>
     find (\<lambda>e. snd e = Some (max_value s)) s \<noteq> None"
proof -
  define d where "d = filter (\<lambda>e. snd e \<noteq> None) s"
  define M where "M = Max (sort_value ` set d)"
  have dv: "defined_values s = map sort_value d"
    unfolding d_def present_filter [symmetric] defined_values_def
    by (simp add: comp_def sort_value_def case_prod_unfold)
  with assms have ne: "d \<noteq> []" by auto
  have M: "max_value s = M" by (simp add: max_value_def dv M_def)
  have Min: "M \<in> sort_value ` set d"
    unfolding M_def using ne by (intro Max_in) auto
  have f: "filter (\<lambda>e. sort_value e = M) d = filter (\<lambda>e. snd e = Some M) s"
    unfolding d_def filter_filter
    by (intro filter_cong refl) (auto simp: sort_value_def split: option.splits)
  from Min have fne: "filter (\<lambda>e. sort_value e = M) d \<noteq> []"
    by (auto simp: filter_empty_conv)
  let ?ys = "sort_key sort_value (rev d)"
  have yne: "rev ?ys \<noteq> []" using ne by (auto dest: arg_cong [where f = length])
  have "hd (sort_values_desc s) = last ?ys"
    unfolding sort_values_desc_def d_def [symmetric]
    using yne by (simp add: hd_append hd_rev)
  also have "\<dots> = hd (filter (\<lambda>e. snd e = Some M) s)"
    using sort_desc_last [OF ne] by (simp add: M_def [symmetric] f)
  finally have h: "hd (sort_values_desc s) = hd (filter (\<lambda>e. snd e = Some M) s)" .
  have sne: "sort_values_desc s \<noteq> []"
    unfolding sort_values_desc_def d_def [symmetric] using yne by simp
  have fi: "find (\<lambda>e. snd e = Some M) s = Some (hd (filter (\<lambda>e. snd e = Some M) s))"
    using fne by (intro find_hd_filter) (simp add: f)
  from sne h fi show ?thesis
    by (cases "sort_values_desc s") (auto simp: M)
qed


lemma charges_column:
  "abs_series (drop_label ''charges'' (map (\<lambda>(m, x). (m, pearson x ch)) t)) = charges_abs t ch"
  by (induction t) (auto simp: abs_series_def drop_label_def charges_abs_def)

text \<open>
  C2, as stated: \<^verbatim>\<open>strongest_correlation\<close> is the signed correlation of the strongest
  predictor with \<^verbatim>\<open>charges\<close>. Here \<^verbatim>\<open>age\<close> has correlation -1 with \<^verbatim>\<open>charges\<close> and the
  reported value is 1.
\<close>

theorem strongest_predictor_counterexample:
  "\<exists>r an'. correlation_analysis (new_analyzer falling None) = Inr (r, an') \<and>
     strongest_predictor r = ''age'' \<and> strongest_correlation r = Some 1 \<and>
     pearson [Num 0, Num 2] [Num 2, Num 0] = Some (- 1) \<and>
     get_col falling ''age'' = Inr [Num 0, Num 2] \<and>
     get_col falling ''charges'' = Inr [Num 2, Num 0]"
  by (simp add: correlation_analysis_def new_analyzer_def falling_def corr_def numeric_table_def
      is_str_def pearson_falling abs_series_def drop_label_def sort_values_desc_def
      sort_value_def get_col_def Let_def)

text \<open>
  C2, amended: on a table of numeric columns with a \<^verbatim>\<open>charges\<close> column and at least one
  other column whose correlation with \<^verbatim>\<open>charges\<close> is not NaN, \<^verbatim>\<open>correlation_analysis\<close>
  stores and returns a result whose \<^verbatim>\<open>strongest_predictor\<close> is the first column, in table
  order and other than \<^verbatim>\<open>charges\<close>, whose absolute correlation with \<^verbatim>\<open>charges\<close> equals
  the maximum, and whose \<^verbatim>\<open>strongest_correlation\<close> is that absolute value.
\<close>

theorem strongest_predictor_first_max:
  assumes "numeric_table (analyzer.df_clean an)"
    and "get_col (analyzer.df_clean an) ''charges'' = Inr ch"
    and "defined_values (charges_abs (analyzer.df_clean an) ch) \<noteq> []"
  shows "\<exists>r an'. correlation_analysis an = Inr (r, an') \<and>
     correlation (analysis_results an') = Some r \<and>
     find (\<lambda>e. snd e = Some (max_value (charges_abs (analyzer.df_clean an) ch)))
       (charges_abs (analyzer.df_clean an) ch) =
     Some (strongest_predictor r, strongest_correlation r)"
proof -
  define t where "t = analyzer.df_clean an"
  define s where "s = charges_abs t ch"
  from assms(2) have c: "map_of t ''charges'' = Some ch"
    by (auto simp: get_col_def t_def split: option.splits)
  define row where "row = (\<lambda>y. map (\<lambda>(m, x). (m, pearson x y)) t)"
  have m: "corr t = Inr (map (\<lambda>(n, y). (n, row y)) t)"
    using assms(1) by (simp add: corr_def row_def t_def)
  have col: "map_of (map (\<lambda>(n, y). (n, row y)) t) ''charges'' = Some (row ch)"
    by (simp add: map_of_map c)
  have srt: "sort_values_desc (abs_series (drop_label ''charges'' (row ch))) = sort_values_desc s"
    by (simp add: row_def charges_column s_def)
  from sort_values_desc_first [of s] assms(3) obtain rest where
    hd: "sort_values_desc s = the (find (\<lambda>e. snd e = Some (max_value s)) s) # rest"
    and fnd: "find (\<lambda>e. snd e = Some (max_value s)) s \<noteq> None"
    by (auto simp: s_def t_def)
  from fnd obtain name v where e: "find (\<lambda>e. snd e = Some (max_value s)) s = Some (name, v)"
    by (cases "find (\<lambda>e. snd e = Some (max_value s)) s") auto
  show ?thesis
    using m col srt hd e
    by (simp add: correlation_analysis_def Let_def t_def [symmetric] s_def [symmetric])
qed

theorem strongest_predictor_first_max_witness:
  "\<exists>r an'. correlation_analysis (new_analyzer falling None) = Inr (r, an') \<and>
     correlation (analysis_results an') = Some r \<and>
     charges_abs falling [Num 2, Num 0] = [(''age'', Some 1), (''bmi'', Some 1)] \<and>
     strongest_predictor r = ''age'' \<and> strongest_correlation r = Some 1"
proof -
  have n: "numeric_table (analyzer.df_clean (new_analyzer falling None))"
    by (simp add: new_analyzer_def falling_def numeric_table_def is_str_def)
  have c: "get_col (analyzer.df_clean (new_analyzer falling None)) ''charges'' = Inr [Num 2, Num 0]"
    by (simp add: new_analyzer_def falling_def get_col_def)
  have a: "charges_abs (analyzer.df_clean (new_analyzer falling None)) [Num 2, Num 0] =
      [(''age'', Some 1), (''bmi'', Some 1)]"
    by (simp add: new_analyzer_def falling_def charges_abs_def pearson_falling)
  have d: "defined_values (charges_abs (analyzer.df_clean (new_analyzer falling None)) [Num 2, Num 0]) \<noteq> []"
    by (simp add: a defined_values_def present_def)
  have f: "analyzer.df_clean (new_analyzer falling None) = falling"
    by (simp add: new_analyzer_def)
  have a': "charges_abs falling [Num 2, Num 0] = [(''age'', Some 1), (''bmi'', Some 1)]"
    using a by (simp only: f)
  show ?thesis
    using strongest_predictor_first_max [OF n c d, unfolded f]
    by (auto simp: a' max_value_def defined_values_def present_def)
qed

end
